theory Spec2Isabelle
  imports Complex_Main "HOL-Library.Word"
begin

unbundle bit_operations_syntax

section \<open>GRBackup: the script \<open>grbackup.py\<close>\<close>

text \<open>
  \<open>grbackup.py\<close> is a script: its statements run top to bottom at module level. The
  model follows the script's own section comments (\<open>#Get date of last sync\<close>,
  \<open>#Open connection\<close>, \<open>#Get list of files\<close>, \<open>#For each file, donwload if new
  or updated\<close>, \<open>#Close connection\<close>, \<open>#Save date of last successful sync\<close>) and gives
  one function per section. \<open>grbackup\<close> composes them in the order of the script, from
  the set-up of the logger on line 270 to the closing record of line 437.

  One statement decides what a run of the script can do. Line 294 reads the name
  \<open>version\<close>; the module binds \<open>VERSION\<close> (line 56) and nothing binds \<open>version\<close>, so
  the look-up raises \<open>NameError\<close> outside every \<open>try\<close>: a run ends there, unless a
  log file could not be opened and it ended before. The sections after line 294 are
  modelled as they are written, each a function of the state in which it would start; a
  theorem about such a function says what these lines do when they run, and
  \<open>grbackup_ends_at_banner\<close> says that no run of the script gets to them.

  Scope. The class \<open>gr_param\<close> and the configuration loop (lines 82-167 and 246-266) are
  modelled on their own. The e-mail report (lines 439-465) and \<open>copyfilter\<close> are not
  modelled. The files the logging handlers write (the log file, the e-mail transcript)
  are not part of the local files of the model: what the script hands to the logger is
  kept as a list of records.
\<close>

subsection \<open>The class \<open>gr_param\<close>\<close>

text \<open>
  The attributes of \<open>gr_param\<close>, with the types their default values have. A YAML
  document could bind a value of another type to a key; the model excludes that by typing.
\<close>

record gr_param =
  name :: string
  label :: string
  last_exec_filename :: string
  log_filename :: string
  log_console :: bool
  log_email :: bool
  log_file :: bool
  debug :: bool
  host :: string
  port :: int
  password :: string
  username :: string
  sourcefolder :: string
  targetfolder :: string
  sync :: bool
  simulation :: bool
  ssl_port :: int
  smtp_server :: string
  smtp_login :: string
  smtp_password :: string
  source_email_address :: string
  dest_email_address :: string
  process_folders :: bool

text \<open>\<open>gr_param.__init__(self, name)\<close>; \<open>cwd\<close> is the value of \<open>os.getcwd()\<close>.\<close>

definition gr_param_init :: "string \<Rightarrow> string \<Rightarrow> gr_param" where
  "gr_param_init cwd nm =
     \<lparr> name = nm,
       label = nm,
       last_exec_filename = cwd @ ''/grbackup_'' @ nm @ ''_last.txt'',
       log_filename = cwd @ ''/grbackup_'' @ nm @ ''.log'',
       log_console = True,
       log_email = False,
       log_file = False,
       debug = False,
       host = ''undefined_server'',
       port = 22,
       password = ''undefined_password'',
       username = ''undefined_login'',
       sourcefolder = '''',
       targetfolder = cwd @ ''/grbackup_'' @ nm @ ''/'',
       sync = True,
       simulation = False,
       ssl_port = 465,
       smtp_server = ''undefined_server'',
       smtp_login = ''undefined_login'',
       smtp_password = ''undefined_password'',
       source_email_address = ''undefined_source_email'',
       dest_email_address = ''undefined_dest_email'',
       process_folders = False \<rparr>"

subsection \<open>The world the script runs in\<close>

text \<open>
  The local file system holds regular files only: a map from path to content, so that
  \<open>os.path.isfile p\<close> is \<open>files p \<noteq> None\<close>. The calls the operating system refuses
  (permissions, a read-only medium, a directory in the way) are the set \<open>denied\<close>.
\<close>

type_synonym fs = "string \<rightharpoonup> string"

datatype os_call =
    OpenRead string
  | OpenWrite string
  | OpenAppend string
  | WriteData string
  | Rename string string
  | Remove string

text \<open>\<open>paramiko.SFTPAttributes\<close>, the three attributes the script reads.\<close>

record filestat =
  st_mode :: int
  st_size :: int
  st_mtime :: int

text \<open>
  What \<open>sftp.get(path, localpath)\<close> does: it returns after writing the whole content to
  \<open>localpath\<close>, or it raises, leaving at \<open>localpath\<close> what it had written (\<open>Some\<close>) or
  nothing new (\<open>None\<close>).
\<close>

datatype get_result = Got string | GetFailed "string option"

text \<open>
  The exceptions the script can meet. \<open>IOError\<close> is what \<open>paramiko\<close> and \<open>open\<close>
  raise; in Python 3 it is another name of \<open>OSError\<close>.
\<close>

datatype exn =
  NameError | AttributeError | ValueError | IOError | OSError | OverflowError

text \<open>
  The environment of one run. \<open>now n\<close> is the value of the \<open>n\<close>-th call of
  \<open>time.time()\<close> (counted from 0), a float in the source and a real here. \<open>ctime\<close> is
  \<open>time.ctime\<close>, which raises \<open>OverflowError\<close> or \<open>OSError\<close> outside the platform's
  range (\<open>Inl\<close>). \<open>humanbytes\<close> is the script's function of that name, which formats a
  float. \<open>getcwd\<close> is \<open>os.getcwd()\<close> and \<open>uuid_text\<close> is
  \<open>str(uuid.uuid4().fields[-1])[:7]\<close> of line 286.
\<close>

record env =
  denied :: "os_call set"
  connect_ok :: bool
  listdir :: "string \<Rightarrow> string list option"
  sftp_stat :: "string \<Rightarrow> filestat option"
  sftp_get :: "string \<Rightarrow> get_result"
  close_ok :: bool
  now :: "nat \<Rightarrow> real"
  ctime :: "int \<Rightarrow> exn + string"
  humanbytes :: "int \<Rightarrow> string"
  getcwd :: string
  uuid_text :: string

datatype level = DEBUG | INFO | ERROR

type_synonym logrec = "level \<times> string"

text \<open>
  The mutable state of the run: the local files, the records handed to the logger, the
  three module-level counters, and the number of calls of \<open>time.time()\<close> made so far.
\<close>

record run_state =
  files :: fs
  log :: "logrec list"
  nb_files_download :: int
  nb_files_error :: int
  tot_size :: int
  nclock :: nat

text \<open>
  How a run ends early: \<open>exit()\<close> raises \<open>SystemExit\<close>; any other exception that no
  handler catches ends the script with a traceback.
\<close>

datatype abort = SystemExit | Uncaught exn

type_synonym 'a result = "(abort \<times> run_state) + 'a"

definition logger :: "level \<Rightarrow> string \<Rightarrow> run_state \<Rightarrow> run_state" where
  "logger lv msg st = st\<lparr>log := log st @ [(lv, msg)]\<rparr>"

definition isfile :: "fs \<Rightarrow> string \<Rightarrow> bool" where
  "isfile fls p = (fls p \<noteq> None)"

text \<open>\<open>os.rename(src, dst)\<close> on POSIX: an existing file at \<open>dst\<close> is replaced.\<close>

definition os_rename :: "env \<Rightarrow> fs \<Rightarrow> string \<Rightarrow> string \<Rightarrow> fs option" where
  "os_rename e fls src dst =
     (if Rename src dst \<in> denied e then None
      else case fls src of
             None \<Rightarrow> None
           | Some c \<Rightarrow> Some ((fls(src := None))(dst \<mapsto> c)))"

definition os_remove :: "env \<Rightarrow> fs \<Rightarrow> string \<Rightarrow> fs option" where
  "os_remove e fls p =
     (if Remove p \<in> denied e then None
      else case fls p of
             None \<Rightarrow> None
           | Some c \<Rightarrow> Some (fls(p := None)))"

text \<open>\<open>stat.S_ISREG(mode)\<close>: \<open>S_IFMT(mode) == S_IFREG\<close>, with \<open>S_IFMT = 0o170000\<close> and
  \<open>S_IFREG = 0o100000\<close>.\<close>

definition S_ISREG :: "int \<Rightarrow> bool" where
  "S_ISREG mode = (mode AND 61440 = 32768)"

subsection \<open>The decision of the main loop (lines 362-378)\<close>

text \<open>The value of the variable \<open>to_download\<close> when the loop reaches line 381.\<close>

definition to_download :: "gr_param \<Rightarrow> fs \<Rightarrow> int \<Rightarrow> string \<Rightarrow> filestat \<Rightarrow> bool" where
  "to_download param fls lastsync_date filetoget fstat =
     (let to_download = False;
          localpath = targetfolder param @ filetoget
      in if S_ISREG (st_mode fstat) then
           (let to_download =
                  (if sync param \<and> (isfile fls localpath = False) then True else to_download);
                to_download =
                  (if st_mtime fstat > lastsync_date then True else to_download)
            in to_download)
         else to_download)"

subsection \<open>Python's \<open>str\<close> and \<open>int\<close> on integers and strings\<close>

definition digit_char :: "nat \<Rightarrow> char" where
  "digit_char d = ''0123456789'' ! (d mod 10)"

text \<open>\<open>str(n)\<close> for a natural number: its decimal digits.\<close>

fun str_of_nat :: "nat \<Rightarrow> string" where
  "str_of_nat n =
     (if n < 10 then [digit_char n] else str_of_nat (n div 10) @ [digit_char (n mod 10)])"

declare str_of_nat.simps [simp del]

text \<open>\<open>str(i)\<close>, which is also \<open>"%s" % i\<close>, for a Python integer.\<close>

definition str_of_int :: "int \<Rightarrow> string" where
  "str_of_int i = (if i < 0 then CHR ''-'' # str_of_nat (nat (- i)) else str_of_nat (nat i))"

text \<open>
  \<open>int(s)\<close> for a string whose characters are code points below 256. White space around
  the literal is dropped: the ASCII characters tab, line feed, vertical tab, form feed,
  carriage return and space, and the two spaces U+0085 and U+00A0 (the separators U+001C
  to U+001F are not dropped, so \<open>int\<close> rejects them). One sign may precede the digits,
  and single underscores may stand between digits. CPython 3.11 refuses a literal of more
  than 4300 digits. \<open>None\<close> is the \<open>ValueError\<close>.
\<close>

definition is_space :: "char \<Rightarrow> bool" where
  "is_space c = ((of_char c :: nat) \<in> {9, 10, 11, 12, 13, 32, 133, 160})"

definition is_digit :: "char \<Rightarrow> bool" where
  "is_digit c = (48 \<le> (of_char c :: nat) \<and> (of_char c :: nat) \<le> 57)"

definition digit_val :: "char \<Rightarrow> nat" where
  "digit_val c = (of_char c :: nat) - 48"

fun parse_digits :: "string \<Rightarrow> nat \<Rightarrow> nat option" where
  "parse_digits [] acc = Some acc"
| "parse_digits (c # cs) acc =
     (if is_digit c then parse_digits cs (10 * acc + digit_val c)
      else if c = CHR ''_'' \<and> (case cs of [] \<Rightarrow> False | d # ds \<Rightarrow> is_digit d)
           then parse_digits cs acc
      else None)"

definition max_str_digits :: nat where
  "max_str_digits = 4300"

definition parse_nat :: "string \<Rightarrow> nat option" where
  "parse_nat s =
     (case s of
        [] \<Rightarrow> None
      | c # cs \<Rightarrow>
          if is_digit c \<and> length (filter is_digit s) \<le> max_str_digits
          then parse_digits (c # cs) 0 else None)"

definition strip :: "string \<Rightarrow> string" where
  "strip s = rev (dropWhile is_space (rev (dropWhile is_space s)))"

definition int_of_str :: "string \<Rightarrow> int option" where
  "int_of_str s =
     (case strip s of
        [] \<Rightarrow> None
      | c # cs \<Rightarrow>
          if c = CHR ''-'' then map_option (\<lambda>n. - int n) (parse_nat cs)
          else if c = CHR ''+'' then map_option int (parse_nat cs)
          else map_option int (parse_nat (c # cs)))"

subsection \<open>Floats as reals: \<open>int(x)\<close>, \<open>//\<close>, \<open>%\<close> and \<open>humanduration\<close>\<close>

text \<open>\<open>int(x)\<close> on a float truncates towards zero.\<close>

definition int_of_float :: "real \<Rightarrow> int" where
  "int_of_float x = (if 0 \<le> x then \<lfloor>x\<rfloor> else \<lceil>x\<rceil>)"

definition floordiv :: "real \<Rightarrow> real \<Rightarrow> real" where
  "floordiv x y = of_int \<lfloor>x / y\<rfloor>"

definition pymod :: "real \<Rightarrow> real \<Rightarrow> real" where
  "pymod x y = x - y * of_int \<lfloor>x / y\<rfloor>"

definition humanduration :: "real \<Rightarrow> real \<Rightarrow> string" where
  "humanduration start_time end_time =
     (let duration = end_time - start_time;
          duration_text = [];
          days = int_of_float (floordiv duration 86400);
          hours = int_of_float (pymod (floordiv duration 3600) 24);
          minutes = int_of_float (pymod (floordiv duration 60) 60);
          seconds = int_of_float (pymod duration 60);
          duration_text =
            (if days > 0 then duration_text @ '' '' @ str_of_int days @ '' d''
             else duration_text);
          duration_text =
            (if hours > 0 then duration_text @ '' '' @ str_of_int hours @ '' h''
             else duration_text);
          duration_text =
            (if minutes > 0 then duration_text @ '' '' @ str_of_int minutes @ '' min''
             else duration_text);
          duration_text =
            (if seconds > 0 then duration_text @ '' '' @ str_of_int seconds @ '' sec''
             else duration_text)
      in duration_text)"

definition time_time :: "env \<Rightarrow> run_state \<Rightarrow> real \<times> run_state" where
  "time_time e st = (now e (nclock st), st\<lparr>nclock := Suc (nclock st)\<rparr>)"

subsection \<open>Get date of last sync (lines 315-331)\<close>

text \<open>
  \<open>open\<close> raising \<open>IOError\<close> is caught: the script logs and calls \<open>exit()\<close>. The
  \<open>ValueError\<close> of \<open>int(...)\<close> is not an \<open>IOError\<close>, and \<open>time.ctime\<close> runs in the
  \<open>else\<close> clause: neither is caught.
\<close>

definition get_date_of_last_sync :: "env \<Rightarrow> gr_param \<Rightarrow> run_state \<Rightarrow> (int \<times> run_state) result" where
  "get_date_of_last_sync e param st =
     (case files st (last_exec_filename param) of
        Some content \<Rightarrow>
          (let st = logger DEBUG ''Get date last download'' st
           in if OpenRead (last_exec_filename param) \<in> denied e then
                Inl (SystemExit,
                     logger INFO ''[END]''
                       (logger ERROR (''Unable to read date of last execution in ''
                                        @ last_exec_filename param) st))
              else
                (case int_of_str content of
                   None \<Rightarrow> Inl (Uncaught ValueError, st)
                 | Some lastsync_date \<Rightarrow>
                     (case ctime e lastsync_date of
                        Inl x \<Rightarrow> Inl (Uncaught x, st)
                      | Inr shown \<Rightarrow>
                          Inr (lastsync_date,
                               logger INFO (''Date last download: '' @ shown) st))))
      | None \<Rightarrow>
          Inr (0, logger INFO ''First execution (no previous download detected)'' st))"

subsection \<open>Open connection (lines 335-345) and get list of files (lines 348-358)\<close>

definition open_connection :: "env \<Rightarrow> gr_param \<Rightarrow> run_state \<Rightarrow> run_state result" where
  "open_connection e param st =
     (let st = logger DEBUG (''Open connection to '' @ host param) st
      in if connect_ok e then Inr (logger INFO (''Connected '' @ host param) st)
         else Inl (SystemExit,
                   logger INFO ''[END]''
                     (logger ERROR (''Cannot connect to server '' @ host param
                                      @ '' on port '' @ str_of_int (port param)) st)))"

definition get_list_of_files :: "env \<Rightarrow> gr_param \<Rightarrow> run_state \<Rightarrow> (string list \<times> run_state) result" where
  "get_list_of_files e param st =
     (let st = logger DEBUG ''Get list of file'' st
      in case listdir e (sourcefolder param) of
           None \<Rightarrow>
             Inl (SystemExit,
                  logger INFO ''[END]'' (logger ERROR ''Cannot get list of files'' st))
         | Some filelist \<Rightarrow>
             Inr (filelist,
                  logger INFO (str_of_nat (length filelist) @ '' items in remote folder'') st))"

subsection \<open>The transfer of one file (lines 383-411)\<close>

text \<open>Lines 387-394: the previous version is renamed; a failure of the rename ends the run.\<close>

definition backup_previous_version :: "env \<Rightarrow> string \<Rightarrow> string \<Rightarrow> run_state \<Rightarrow> run_state result" where
  "backup_previous_version e localpath localpath_backup st =
     (if isfile (files st) localpath then
        (let st = logger DEBUG (''Backup previous version: '' @ localpath_backup) st
         in case os_rename e (files st) localpath localpath_backup of
              None \<Rightarrow>
                Inl (SystemExit,
                     logger INFO ''[END]'' (logger ERROR ''Cannot backup previous version'' st))
            | Some fls \<Rightarrow> Inr (st\<lparr>files := fls\<rparr>))
      else Inr st)"

text \<open>
  Lines 395-411, the \<open>try\<close>/\<open>except\<close>/\<open>else\<close> around \<open>sftp.get\<close>. In the handler, line 402
  calls \<open>logger.debuginfo\<close>; a \<open>logging.Logger\<close> has no such attribute, so the lookup raises
  \<open>AttributeError\<close> inside the handler and \<open>os.rename(localpath_backup, localpath)\<close> on
  line 403 is never reached. \<open>os.remove\<close> on line 411 is outside every \<open>try\<close>.
\<close>

definition sftp_get_try :: "env \<Rightarrow> string \<Rightarrow> string \<Rightarrow> string \<Rightarrow> filestat \<Rightarrow> run_state \<Rightarrow> run_state result" where
  "sftp_get_try e path localpath localpath_backup fstat st =
     (case sftp_get e path of
        GetFailed left \<Rightarrow>
          (let st = st\<lparr>files := (case left of None \<Rightarrow> files st
                                   | Some part \<Rightarrow> (files st)(localpath \<mapsto> part))\<rparr>;
               st = logger ERROR ''Error when downloading file.'' st;
               st = st\<lparr>nb_files_error := nb_files_error st + 1\<rparr>
           in if isfile (files st) localpath_backup then Inl (Uncaught AttributeError, st)
              else Inr st)
      | Got content \<Rightarrow>
          (let st = st\<lparr>files := (files st)(localpath \<mapsto> content)\<rparr>;
               st = st\<lparr>nb_files_download := nb_files_download st + 1\<rparr>;
               st = st\<lparr>tot_size := tot_size st + st_size fstat\<rparr>;
               st = logger INFO (''[OK] '' @ humanbytes e (st_size fstat)) st
           in if isfile (files st) localpath_backup then
                (let st = logger DEBUG (''Delete backup of previous version ''
                                          @ localpath_backup) st
                 in case os_remove e (files st) localpath_backup of
                      None \<Rightarrow> Inl (Uncaught OSError, st)
                    | Some fls \<Rightarrow> Inr (st\<lparr>files := fls\<rparr>))
              else Inr st))"

definition get_file :: "env \<Rightarrow> gr_param \<Rightarrow> string \<Rightarrow> filestat \<Rightarrow> run_state \<Rightarrow> run_state result" where
  "get_file e param filetoget fstat st =
     (case ctime e (st_mtime fstat) of
        Inl x \<Rightarrow> Inl (Uncaught x, st)
      | Inr shown \<Rightarrow>
          (let st = logger INFO (''Get file '' @ filetoget @ '' last modified on '' @ shown) st;
               path = sourcefolder param @ filetoget;
               localpath = targetfolder param @ filetoget;
               localpath_backup = localpath @ ''.back''
           in case backup_previous_version e localpath localpath_backup st of
                Inl a \<Rightarrow> Inl a
              | Inr st \<Rightarrow> sftp_get_try e path localpath localpath_backup fstat st))"

subsection \<open>For each file, download if new or updated (lines 361-413)\<close>

text \<open>One iteration. \<open>sftp.stat\<close> on line 365 is outside every \<open>try\<close>.\<close>

definition loop_body :: "env \<Rightarrow> gr_param \<Rightarrow> int \<Rightarrow> string \<Rightarrow> run_state \<Rightarrow> run_state result" where
  "loop_body e param lastsync_date filetoget st =
     (case sftp_stat e (sourcefolder param @ filetoget) of
        None \<Rightarrow> Inl (Uncaught IOError, st)
      | Some fstat \<Rightarrow>
          (let st1 =
                 (if S_ISREG (st_mode fstat) then
                    (if debug param then
                       logger INFO (''File '' @ filetoget @ '' : ''
                                      @ humanbytes e (st_size fstat)) st
                     else st)
                  else logger DEBUG (''Skip folder '' @ filetoget) st)
           in if to_download param (files st) lastsync_date filetoget fstat then
                (if simulation param = False then get_file e param filetoget fstat st1
                 else
                   (case ctime e (st_mtime fstat) of
                      Inl x \<Rightarrow> Inl (Uncaught x, st1)
                    | Inr shown \<Rightarrow>
                        Inr (logger INFO (''Simulation: get file '' @ filetoget
                                            @ '' last modified on '' @ shown) st1)))
              else Inr st1))"

fun for_each_file :: "env \<Rightarrow> gr_param \<Rightarrow> int \<Rightarrow> string list \<Rightarrow> run_state \<Rightarrow> run_state result" where
  "for_each_file e param lastsync_date [] st = Inr st"
| "for_each_file e param lastsync_date (filetoget # filelist) st =
     (case loop_body e param lastsync_date filetoget st of
        Inl a \<Rightarrow> Inl a
      | Inr st' \<Rightarrow> for_each_file e param lastsync_date filelist st')"

subsection \<open>Close connection (lines 416-421), save date of last successful sync (lines 424-433)\<close>

definition close_connection :: "env \<Rightarrow> run_state \<Rightarrow> run_state" where
  "close_connection e st =
     (let st = logger DEBUG ''Close connection'' st
      in if close_ok e then st else logger ERROR ''Unable to close connection properly'' st)"

text \<open>
  \<open>open(..., "w")\<close> truncates the file; \<open>time.time()\<close> is read for the text to write and,
  when the write went through, once more for the debug record.
\<close>

definition save_date_of_last_sync :: "env \<Rightarrow> gr_param \<Rightarrow> run_state \<Rightarrow> run_state" where
  "save_date_of_last_sync e param st =
     (let st = logger DEBUG ''Save date last download'' st
      in if OpenWrite (last_exec_filename param) \<in> denied e then
           logger ERROR ''Unable to save date of last download'' st
         else
           (let st = st\<lparr>files := (files st)(last_exec_filename param \<mapsto> [])\<rparr>;
                (t, st) = time_time e st
            in if WriteData (last_exec_filename param) \<in> denied e then
                 logger ERROR ''Unable to save date of last download'' st
               else
                 (let st = st\<lparr>files := (files st)(last_exec_filename param
                                              \<mapsto> str_of_int (int_of_float t))\<rparr>;
                      (t', st) = time_time e st
                  in logger DEBUG (''Date last download saved: ''
                                     @ str_of_int (int_of_float t')) st)))"

text \<open>Lines 435-437: the duration and the closing record.\<close>

definition finished :: "env \<Rightarrow> real \<Rightarrow> run_state \<Rightarrow> run_state" where
  "finished e start_time st =
     (let (t, st) = time_time e st;
          duration_text = humanduration start_time t
      in logger INFO (''Finished: '' @ str_of_int (nb_files_download st)
                        @ '' updated/new files downloaded - ''
                        @ humanbytes e (tot_size st) @ '' - '' @ duration_text) st)"

subsection \<open>The set-up of the logger and the banner (lines 270-306)\<close>

text \<open>
  \<open>logging.FileHandler(path)\<close> opens \<open>path\<close> for appending when it is constructed; when
  the file cannot be opened the exception is caught by nothing. The e-mail transcript goes
  to a file named after the working directory and seven characters of a random UUID.
\<close>

definition email_logfile :: "env \<Rightarrow> string" where
  "email_logfile e = getcwd e @ ''/grbackup_email_'' @ uuid_text e @ ''.log''"

definition file_handler :: "env \<Rightarrow> string \<Rightarrow> run_state \<Rightarrow> run_state result" where
  "file_handler e path st =
     (if OpenAppend path \<in> denied e then Inl (Uncaught OSError, st) else Inr st)"

definition logger_set_up :: "env \<Rightarrow> gr_param \<Rightarrow> run_state \<Rightarrow> run_state result" where
  "logger_set_up e param st =
     (case (if log_file param then file_handler e (log_filename param) st else Inr st) of
        Inl a \<Rightarrow> Inl a
      | Inr st \<Rightarrow>
          (if log_email param then file_handler e (email_logfile e) st else Inr st))"

text \<open>
  The names the module binds to a string constant (lines 56 and 57). The other names bound
  before line 294 are the imports (\<open>os\<close>, \<open>datetime\<close>, \<open>time\<close>, \<open>smtplib\<close>, \<open>ssl\<close>,
  \<open>email\<close>, \<open>MIMEMultipart\<close>, \<open>MIMEText\<close>, \<open>yaml\<close>, \<open>copy\<close>, \<open>sys\<close>, \<open>logging\<close>,
  \<open>shutil\<close>, \<open>glob\<close>, \<open>stat\<close>, \<open>uuid\<close>, \<open>paramiko\<close>, \<open>pprint\<close>), the functions
  \<open>copyfilter\<close>, \<open>humanbytes\<close>, \<open>humanduration\<close> and \<open>humanstatus\<close>, the class
  \<open>gr_param\<close>, and \<open>selected_param\<close>, \<open>defaultparam\<close>, \<open>load_count\<close>, \<open>conf_file\<close>,
  \<open>data\<close>, \<open>param\<close>, \<open>loadparam\<close>, \<open>logger\<close>, \<open>fh\<close>, \<open>sh\<close>, \<open>eh\<close>, \<open>formatterDB\<close>,
  \<open>formatterCS\<close> and \<open>email_logfile\<close>. None of them is called \<open>version\<close>
  (names are case sensitive), and \<open>version\<close> is no builtin, so the look-up of
  \<open>version\<close> on line 294 finds nothing.
\<close>

definition global_str :: "string \<Rightarrow> string option" where
  "global_str nm =
     (if nm = ''VERSION'' then Some ''0.10.0''
      else if nm = ''log_output'' then Some []
      else None)"

text \<open>
  Line 294: the argument of \<open>logger.info\<close> is evaluated first, and the look-up of
  \<open>version\<close> raises \<open>NameError\<close> before anything is logged.
\<close>

definition banner :: "gr_param \<Rightarrow> run_state \<Rightarrow> run_state result" where
  "banner param st =
     (case global_str ''version'' of
        None \<Rightarrow> Inl (Uncaught NameError, st)
      | Some version \<Rightarrow>
          Inr (logger INFO (''GRBackup '' @ version @ '' - '' @ label param
                              @ '' ('' @ name param @ '')'') st))"

text \<open>Lines 295-306.\<close>

definition start_records :: "gr_param \<Rightarrow> run_state \<Rightarrow> run_state" where
  "start_records param st =
     (let st = logger DEBUG ''[START]'' st;
          st = (if simulation param then logger INFO ''Simulation mode'' st else st);
          st = (if debug param then logger DEBUG ''Debug mode'' st else st);
          st = (if log_console param then logger DEBUG ''Log in console active'' st else st);
          st = (if log_email param then logger DEBUG ''Email report activated'' st else st);
          st = (if log_file param then logger DEBUG (''Log in file '' @ log_filename param) st
                else st)
      in st)"

subsection \<open>From the loop to the last line (lines 361-437), and the whole script\<close>

text \<open>Lines 415-437: what the script does once the loop has run through.\<close>

definition shutdown :: "env \<Rightarrow> gr_param \<Rightarrow> real \<Rightarrow> run_state \<Rightarrow> run_state" where
  "shutdown e param start_time st =
     finished e start_time (save_date_of_last_sync e param (close_connection e st))"

text \<open>
  Lines 361-437, entered with the values of \<open>start_time\<close>, \<open>lastsync_date\<close> and
  \<open>filelist\<close>: an iteration that raises ends everything, otherwise the lines after the loop
  follow.
\<close>

definition sync_files :: "env \<Rightarrow> gr_param \<Rightarrow> real \<Rightarrow> int \<Rightarrow> string list \<Rightarrow> run_state \<Rightarrow> run_state result" where
  "sync_files e param start_time lastsync_date filelist st =
     (case for_each_file e param lastsync_date filelist st of
        Inl a \<Rightarrow> Inl a
      | Inr st \<Rightarrow> Inr (shutdown e param start_time st))"

text \<open>
  The script from line 270 on, for the profile \<open>param\<close> that the configuration loop has
  resolved. Lines 308-311 set the counters and read \<open>start_time\<close>.
\<close>

definition grbackup :: "env \<Rightarrow> gr_param \<Rightarrow> run_state \<Rightarrow> run_state result" where
  "grbackup e param st0 =
     (case logger_set_up e param st0 of
        Inl a \<Rightarrow> Inl a
      | Inr st \<Rightarrow>
          (case banner param st of
             Inl a \<Rightarrow> Inl a
           | Inr st \<Rightarrow>
               (let st = start_records param st;
                    st = st\<lparr>nb_files_download := 0, nb_files_error := 0, tot_size := 0\<rparr>;
                    (start_time, st) = time_time e st
                in case get_date_of_last_sync e param st of
                     Inl a \<Rightarrow> Inl a
                   | Inr (lastsync_date, st) \<Rightarrow>
                       (case open_connection e param st of
                          Inl a \<Rightarrow> Inl a
                        | Inr st \<Rightarrow>
                            (case get_list_of_files e param st of
                               Inl a \<Rightarrow> Inl a
                             | Inr (filelist, st) \<Rightarrow>
                                 sync_files e param start_time lastsync_date filelist st)))))"

text \<open>
  What a section or a run leaves behind, and how it ended (\<open>None\<close>: it ran to its last
  line).
\<close>

definition final_state :: "run_state result \<Rightarrow> run_state" where
  "final_state r = (case r of Inl (a, st) \<Rightarrow> st | Inr st \<Rightarrow> st)"

definition ended_by :: "'a result \<Rightarrow> abort option" where
  "ended_by r = (case r of Inl (a, st) \<Rightarrow> Some a | Inr x \<Rightarrow> None)"

text \<open>
  The loop stands at \<open>filetoget\<close> in state \<open>st\<close>, takes the transfer branch, finds a
  local file at the destination and \<open>os.rename\<close> on line 390 raises.
\<close>

definition backup_rename_fails :: "env \<Rightarrow> gr_param \<Rightarrow> int \<Rightarrow> string \<Rightarrow> run_state \<Rightarrow> bool" where
  "backup_rename_fails e param lastsync_date filetoget st =
     (case sftp_stat e (sourcefolder param @ filetoget) of
        None \<Rightarrow> False
      | Some fstat \<Rightarrow>
          to_download param (files st) lastsync_date filetoget fstat
          \<and> simulation param = False
          \<and> (case ctime e (st_mtime fstat) of Inl x \<Rightarrow> False | Inr shown \<Rightarrow> True)
          \<and> isfile (files st) (targetfolder param @ filetoget)
          \<and> os_rename e (files st) (targetfolder param @ filetoget)
                (targetfolder param @ filetoget @ ''.back'') = None)"

section \<open>The configuration: \<open>gr_param.load\<close> and the loop of lines 246-266\<close>

text \<open>
  One YAML document of \<open>grbackup.conf\<close>: a mapping whose recognised keys are listed below,
  section by section. A key that is absent is \<open>None\<close>, so \<open>'host' in source\<close> of the
  source is \<open>s_host source \<noteq> None\<close> here.
\<close>

record yaml_files =
  f_process_subfolders :: "bool option"

record yaml_log =
  l_filename :: "string option"
  l_console :: "bool option"
  l_email :: "bool option"
  l_file :: "bool option"
  l_debug :: "bool option"

record yaml_source =
  s_host :: "string option"
  s_port :: "int option"
  s_username :: "string option"
  s_password :: "string option"
  s_folder :: "string option"

record yaml_target =
  t_folder :: "string option"

record yaml_execmode =
  x_sync :: "bool option"
  x_simulation :: "bool option"

record yaml_emailreport =
  m_ssl_port :: "int option"
  m_server :: "string option"
  m_username :: "string option"
  m_password :: "string option"
  m_source_address :: "string option"
  m_dest_address :: "string option"

record yaml_doc =
  d_name :: "string option"
  d_label :: "string option"
  d_last_exec_filename :: "string option"
  d_files :: "yaml_files option"
  d_log :: "yaml_log option"
  d_source :: "yaml_source option"
  d_target :: "yaml_target option"
  d_execmode :: "yaml_execmode option"
  d_emailreport :: "yaml_emailreport option"

text \<open>\<open>gr_param.load(self, data)\<close>, lines 108-167, one function per nested mapping.\<close>

definition load_files :: "gr_param \<Rightarrow> yaml_files \<Rightarrow> gr_param" where
  "load_files self fls =
     (case f_process_subfolders fls of
        Some v \<Rightarrow> self\<lparr>process_folders := v\<rparr> | None \<Rightarrow> self)"

definition load_log :: "gr_param \<Rightarrow> yaml_log \<Rightarrow> gr_param" where
  "load_log self lg =
     (let self = (case l_filename lg of Some v \<Rightarrow> self\<lparr>log_filename := v\<rparr> | None \<Rightarrow> self);
          self = (case l_console lg of Some v \<Rightarrow> self\<lparr>log_console := v\<rparr> | None \<Rightarrow> self);
          self = (case l_email lg of Some v \<Rightarrow> self\<lparr>log_email := v\<rparr> | None \<Rightarrow> self);
          self = (case l_file lg of Some v \<Rightarrow> self\<lparr>log_file := v\<rparr> | None \<Rightarrow> self);
          self = (case l_debug lg of Some v \<Rightarrow> self\<lparr>debug := v\<rparr> | None \<Rightarrow> self)
      in self)"

definition load_source :: "gr_param \<Rightarrow> yaml_source \<Rightarrow> gr_param" where
  "load_source self src =
     (let self = (case s_host src of Some v \<Rightarrow> self\<lparr>host := v\<rparr> | None \<Rightarrow> self);
          self = (case s_port src of Some v \<Rightarrow> self\<lparr>port := v\<rparr> | None \<Rightarrow> self);
          self = (case s_username src of Some v \<Rightarrow> self\<lparr>username := v\<rparr> | None \<Rightarrow> self);
          self = (case s_password src of Some v \<Rightarrow> self\<lparr>password := v\<rparr> | None \<Rightarrow> self);
          self = (case s_folder src of Some v \<Rightarrow> self\<lparr>sourcefolder := v\<rparr> | None \<Rightarrow> self)
      in self)"

definition load_target :: "gr_param \<Rightarrow> yaml_target \<Rightarrow> gr_param" where
  "load_target self tgt =
     (case t_folder tgt of Some v \<Rightarrow> self\<lparr>targetfolder := v\<rparr> | None \<Rightarrow> self)"

definition load_execmode :: "gr_param \<Rightarrow> yaml_execmode \<Rightarrow> gr_param" where
  "load_execmode self ex =
     (let self = (case x_sync ex of Some v \<Rightarrow> self\<lparr>sync := v\<rparr> | None \<Rightarrow> self);
          self = (case x_simulation ex of Some v \<Rightarrow> self\<lparr>simulation := v\<rparr> | None \<Rightarrow> self)
      in self)"

definition load_emailreport :: "gr_param \<Rightarrow> yaml_emailreport \<Rightarrow> gr_param" where
  "load_emailreport self em =
     (let self = (case m_ssl_port em of Some v \<Rightarrow> self\<lparr>ssl_port := v\<rparr> | None \<Rightarrow> self);
          self = (case m_server em of Some v \<Rightarrow> self\<lparr>smtp_server := v\<rparr> | None \<Rightarrow> self);
          self = (case m_username em of Some v \<Rightarrow> self\<lparr>smtp_login := v\<rparr> | None \<Rightarrow> self);
          self = (case m_password em of Some v \<Rightarrow> self\<lparr>smtp_password := v\<rparr> | None \<Rightarrow> self);
          self = (case m_source_address em of
                    Some v \<Rightarrow> self\<lparr>source_email_address := v\<rparr> | None \<Rightarrow> self);
          self = (case m_dest_address em of
                    Some v \<Rightarrow> self\<lparr>dest_email_address := v\<rparr> | None \<Rightarrow> self)
      in self)"

definition load :: "gr_param \<Rightarrow> yaml_doc \<Rightarrow> gr_param" where
  "load self data =
     (let self = (case d_name data of Some v \<Rightarrow> self\<lparr>name := v\<rparr> | None \<Rightarrow> self);
          self = (case d_label data of Some v \<Rightarrow> self\<lparr>label := v\<rparr> | None \<Rightarrow> self);
          self = (case d_last_exec_filename data of
                    Some v \<Rightarrow> self\<lparr>last_exec_filename := v\<rparr> | None \<Rightarrow> self);
          self = (case d_files data of Some fls \<Rightarrow> load_files self fls | None \<Rightarrow> self);
          self = (case d_log data of Some lg \<Rightarrow> load_log self lg | None \<Rightarrow> self);
          self = (case d_source data of Some src \<Rightarrow> load_source self src | None \<Rightarrow> self);
          self = (case d_target data of Some tgt \<Rightarrow> load_target self tgt | None \<Rightarrow> self);
          self = (case d_execmode data of Some ex \<Rightarrow> load_execmode self ex | None \<Rightarrow> self);
          self = (case d_emailreport data of
                    Some em \<Rightarrow> load_emailreport self em | None \<Rightarrow> self)
      in self)"

text \<open>
  Lines 247-263. The loop carries \<open>load_count\<close>, \<open>defaultparam\<close> and \<open>param\<close>; \<open>param\<close>
  is unbound (\<open>None\<close>) until the first document has been read. \<open>copy.deepcopy\<close> is the
  identity on values.
\<close>

definition load_step :: "string \<Rightarrow> nat \<times> gr_param \<times> gr_param option \<Rightarrow> yaml_doc \<Rightarrow> nat \<times> gr_param \<times> gr_param option" where
  "load_step selected_param s data =
     (case s of (load_count, defaultparam, param) \<Rightarrow>
        (let load_count = load_count + 1
         in if load_count = 1 then
              (let defaultparam = load defaultparam data;
                   param = Some defaultparam
               in (load_count, defaultparam, param))
            else
              (let loadparam = defaultparam;
                   loadparam = load loadparam data
               in if selected_param = name loadparam then
                    (load_count, defaultparam, Some loadparam)
                  else (load_count, defaultparam, param))))"

definition configuration_load :: "string \<Rightarrow> string \<Rightarrow> yaml_doc list \<Rightarrow> gr_param option" where
  "configuration_load cwd selected_param docs =
     (case foldl (load_step selected_param) (0, gr_param_init cwd ''default'', None) docs of
        (load_count, defaultparam, param) \<Rightarrow>
          if load_count = 1 then Some defaultparam else param)"

text \<open>
  The resolution as the specification words it: each field of the resolved profile is the
  value the fragment gives for it, or else the value of the default profile.
\<close>

definition pick :: "'a option \<Rightarrow> 'a \<Rightarrow> 'a" where
  "pick v dflt = (case v of Some x \<Rightarrow> x | None \<Rightarrow> dflt)"

definition pick_in :: "'s option \<Rightarrow> ('s \<Rightarrow> 'a option) \<Rightarrow> 'a \<Rightarrow> 'a" where
  "pick_in sect key dflt = (case sect of Some s \<Rightarrow> pick (key s) dflt | None \<Rightarrow> dflt)"

definition field_by_field_override :: "gr_param \<Rightarrow> yaml_doc \<Rightarrow> gr_param" where
  "field_by_field_override dflt frag =
     \<lparr> name = pick (d_name frag) (name dflt),
       label = pick (d_label frag) (label dflt),
       last_exec_filename = pick (d_last_exec_filename frag) (last_exec_filename dflt),
       log_filename = pick_in (d_log frag) l_filename (log_filename dflt),
       log_console = pick_in (d_log frag) l_console (log_console dflt),
       log_email = pick_in (d_log frag) l_email (log_email dflt),
       log_file = pick_in (d_log frag) l_file (log_file dflt),
       debug = pick_in (d_log frag) l_debug (debug dflt),
       host = pick_in (d_source frag) s_host (host dflt),
       port = pick_in (d_source frag) s_port (port dflt),
       password = pick_in (d_source frag) s_password (password dflt),
       username = pick_in (d_source frag) s_username (username dflt),
       sourcefolder = pick_in (d_source frag) s_folder (sourcefolder dflt),
       targetfolder = pick_in (d_target frag) t_folder (targetfolder dflt),
       sync = pick_in (d_execmode frag) x_sync (sync dflt),
       simulation = pick_in (d_execmode frag) x_simulation (simulation dflt),
       ssl_port = pick_in (d_emailreport frag) m_ssl_port (ssl_port dflt),
       smtp_server = pick_in (d_emailreport frag) m_server (smtp_server dflt),
       smtp_login = pick_in (d_emailreport frag) m_username (smtp_login dflt),
       smtp_password = pick_in (d_emailreport frag) m_password (smtp_password dflt),
       source_email_address =
         pick_in (d_emailreport frag) m_source_address (source_email_address dflt),
       dest_email_address =
         pick_in (d_emailreport frag) m_dest_address (dest_email_address dflt),
       process_folders = pick_in (d_files frag) f_process_subfolders (process_folders dflt) \<rparr>"

text \<open>A document with no key at all, to build concrete documents from.\<close>

definition empty_doc :: yaml_doc where
  "empty_doc =
     \<lparr> d_name = None, d_label = None, d_last_exec_filename = None, d_files = None,
       d_log = None, d_source = None, d_target = None, d_execmode = None,
       d_emailreport = None \<rparr>"

definition source_host :: "string \<Rightarrow> yaml_source" where
  "source_host h =
     \<lparr> s_host = Some h, s_port = None, s_username = None, s_password = None,
       s_folder = None \<rparr>"

section \<open>Concrete runs\<close>

text \<open>
  A profile with short paths: the remote folder is \<open>r/\<close>, the target folder \<open>t/\<close>, the
  state file \<open>last\<close>. The remote folder holds two regular files, \<open>a\<close> (modified at 100)
  and \<open>b\<close> (modified at 300), of 3 bytes each; the transfer of \<open>a\<close> fails, that of \<open>b\<close>
  delivers \<open>new\<close>. The clock advances by 60 seconds from one reading to the next. For
  \<open>time.ctime\<close> the decimal digits of the epoch stand in for the date text, and
  \<open>humanbytes\<close> is given as it prints sizes below 1024.
\<close>

definition scn_param :: gr_param where
  "scn_param = (gr_param_init ''/w'' ''default'')
     \<lparr>last_exec_filename := ''last'', sourcefolder := ''r/'', targetfolder := ''t/''\<rparr>"

definition scn_stat :: "int \<Rightarrow> filestat" where
  "scn_stat m = \<lparr>st_mode = 33188, st_size = 3, st_mtime = m\<rparr>"

definition scn_clock :: "nat \<Rightarrow> real" where
  "scn_clock n = 1000 + 60 * real n"

definition scn_world :: "os_call set \<Rightarrow> (nat \<Rightarrow> real) \<Rightarrow> env" where
  "scn_world refused clock =
     \<lparr> denied = refused,
       connect_ok = True,
       listdir = (\<lambda>d. if d = ''r/'' then Some [''a'', ''b''] else None),
       sftp_stat = (\<lambda>p. if p = ''r/a'' then Some (scn_stat 100)
                         else if p = ''r/b'' then Some (scn_stat 300) else None),
       sftp_get = (\<lambda>p. if p = ''r/a'' then GetFailed None else Got ''new''),
       close_ok = True,
       now = clock,
       ctime = (\<lambda>t. Inr (str_of_int t)),
       humanbytes = (\<lambda>b. str_of_int b @ ''.0 Byte''),
       getcwd = ''/w'',
       uuid_text = ''1234567'' \<rparr>"

definition scn_env :: env where
  "scn_env = scn_world {} scn_clock"

definition scn_state :: "fs \<Rightarrow> run_state" where
  "scn_state fls =
     \<lparr> files = fls, log = [], nb_files_download = 0, nb_files_error = 0, tot_size = 0,
       nclock = 0 \<rparr>"

text \<open>The same world where the operating system refuses to rename \<open>t/a\<close> to \<open>t/a.back\<close>.\<close>

definition scn_env_ro :: env where
  "scn_env_ro = scn_world {Rename ''t/a'' ''t/a.back''} scn_clock"

text \<open>The same world where the state file cannot be opened for writing.\<close>

definition scn_env_nosave :: env where
  "scn_env_nosave = scn_world {OpenWrite ''last''} scn_clock"

text \<open>
  The same world with a clock that stands at 1000 up to the reading written as the
  watermark and at 4600 from the next reading on: an hour goes by while the state file is
  written, and none at any other time.
\<close>

definition scn_env_slow_save :: env where
  "scn_env_slow_save = scn_world {} (\<lambda>n. if n \<le> 1 then 1000 else 4600)"

text \<open>The same world where the transfer of \<open>a\<close> fails after writing \<open>ne\<close> to the destination.\<close>

definition scn_env_partial :: env where
  "scn_env_partial = scn_env\<lparr>sftp_get := (\<lambda>p. GetFailed (Some ''ne''))\<rparr>"

text \<open>
  A state in which the loop of line 361 would start: the counters are 0 and the clock has
  been read once, for \<open>start_time\<close>.
\<close>

definition scn_loop_state :: "fs \<Rightarrow> run_state" where
  "scn_loop_state fls = (scn_state fls)\<lparr>nclock := 1\<rparr>"

text \<open>The profile of the concrete runs in simulation mode.\<close>

definition scn_param_sim :: gr_param where
  "scn_param_sim = scn_param\<lparr>simulation := True\<rparr>"

text \<open>Three documents of a configuration file: the defaults and two named profiles.\<close>

definition doc_default :: yaml_doc where
  "doc_default =
     empty_doc\<lparr>d_name := Some ''default'', d_source := Some (source_host ''h0''),
               d_target := Some \<lparr>t_folder = Some ''t/''\<rparr>\<rparr>"

definition doc_srv1 :: yaml_doc where
  "doc_srv1 = empty_doc\<lparr>d_name := Some ''srv1'', d_source := Some (source_host ''h1'')\<rparr>"

definition doc_srv2 :: yaml_doc where
  "doc_srv2 = empty_doc\<lparr>d_name := Some ''srv2'', d_source := Some (source_host ''h2'')\<rparr>"

section \<open>Theorems\<close>

subsection \<open>The download decision\<close>

text \<open>
  C2. For every entry of the remote listing whose attributes were read, the loop takes the
  transfer branch exactly when the entry is a regular file and either the profile is in
  sync mode and no local file stands at the destination, or the remote modification time
  is strictly later than the date of the last sync. So an entry modified exactly at the
  watermark and present locally is not downloaded, and an entry that is not a regular
  file never is.
\<close>

theorem C2_download_decision:
  "to_download param fls lastsync_date filetoget fstat =
     (S_ISREG (st_mode fstat) \<and>
      ((sync param \<and> \<not> isfile fls (targetfolder param @ filetoget))
       \<or> st_mtime fstat > lastsync_date))"
  by (simp add: to_download_def Let_def)

theorem C2_download_decision_witness:
  "\<not> to_download scn_param [''t/a'' \<mapsto> ''old''] 100 ''a'' (scn_stat 100)
   \<and> \<not> to_download scn_param Map.empty 0 ''d'' \<lparr>st_mode = 16877, st_size = 0, st_mtime = 5\<rparr>
   \<and> to_download scn_param Map.empty 100 ''a'' (scn_stat 100)"
  using C2_download_decision [of scn_param "[''t/a'' \<mapsto> ''old'']" 100 "''a''" "scn_stat 100"]
        C2_download_decision [of scn_param Map.empty 0 "''d''"
                                 "\<lparr>st_mode = 16877, st_size = 0, st_mtime = 5\<rparr>"]
        C2_download_decision [of scn_param Map.empty 100 "''a''" "scn_stat 100"]
  by (simp add: scn_param_def scn_stat_def gr_param_init_def isfile_def S_ISREG_def)

subsection \<open>Every run of the script ends at line 294\<close>

lemma logger_simps [simp]:
  "files (logger lv m st) = files st"
  "nclock (logger lv m st) = nclock st"
  "nb_files_download (logger lv m st) = nb_files_download st"
  "nb_files_error (logger lv m st) = nb_files_error st"
  "tot_size (logger lv m st) = tot_size st"
  "log (logger lv m st) = log st @ [(lv, m)]"
  by (simp_all add: logger_def)

lemma grbackup_ends_at_banner:
  "grbackup e param st0 =
     Inl (Uncaught (if (log_file param \<and> OpenAppend (log_filename param) \<in> denied e)
                       \<or> (log_email param \<and> OpenAppend (email_logfile e) \<in> denied e)
                    then OSError else NameError), st0)"
  by (simp add: grbackup_def logger_set_up_def file_handler_def banner_def global_str_def)

lemma grbackup_shipped:
  "final_state (grbackup e param st0) = st0"
  "ended_by (grbackup e param st0) = Some (Uncaught NameError)
   \<or> ended_by (grbackup e param st0) = Some (Uncaught OSError)"
  by (simp_all add: grbackup_ends_at_banner final_state_def ended_by_def)

subsection \<open>What each section leaves unchanged\<close>

lemma close_connection_simps [simp]:
  "files (close_connection e st) = files st"
  "nclock (close_connection e st) = nclock st"
  "nb_files_download (close_connection e st) = nb_files_download st"
  "nb_files_error (close_connection e st) = nb_files_error st"
  "tot_size (close_connection e st) = tot_size st"
  by (simp_all add: close_connection_def Let_def)

lemma save_counters [simp]:
  "nb_files_download (save_date_of_last_sync e param st) = nb_files_download st"
  "nb_files_error (save_date_of_last_sync e param st) = nb_files_error st"
  "tot_size (save_date_of_last_sync e param st) = tot_size st"
  by (simp_all add: save_date_of_last_sync_def time_time_def Let_def)

lemma save_written:
  assumes "OpenWrite (last_exec_filename param) \<notin> denied e"
      and "WriteData (last_exec_filename param) \<notin> denied e"
  shows "files (save_date_of_last_sync e param st)
           = (files st)(last_exec_filename param \<mapsto> str_of_int (int_of_float (now e (nclock st))))"
    and "nclock (save_date_of_last_sync e param st) = nclock st + 2"
  using assms by (simp_all add: save_date_of_last_sync_def time_time_def Let_def)

lemma save_refused:
  assumes "OpenWrite (last_exec_filename param) \<in> denied e
           \<or> WriteData (last_exec_filename param) \<in> denied e"
  shows "(ERROR, ''Unable to save date of last download'')
           \<in> set (log (save_date_of_last_sync e param st))"
  using assms by (auto simp: save_date_of_last_sync_def time_time_def Let_def)

lemma finished_simps [simp]:
  "files (finished e t st) = files st"
  "nclock (finished e t st) = Suc (nclock st)"
  "nb_files_download (finished e t st) = nb_files_download st"
  "nb_files_error (finished e t st) = nb_files_error st"
  "tot_size (finished e t st) = tot_size st"
  "log (finished e t st) = log st @
     [(INFO, ''Finished: '' @ str_of_int (nb_files_download st)
               @ '' updated/new files downloaded - '' @ humanbytes e (tot_size st)
               @ '' - '' @ humanduration t (now e (nclock st)))]"
  by (simp_all add: finished_def time_time_def Let_def)

lemma shutdown_written:
  assumes "OpenWrite (last_exec_filename param) \<notin> denied e"
      and "WriteData (last_exec_filename param) \<notin> denied e"
  shows "files (shutdown e param t st)
           = (files st)(last_exec_filename param \<mapsto> str_of_int (int_of_float (now e (nclock st))))"
    and "last (log (shutdown e param t st))
           = (INFO, ''Finished: '' @ str_of_int (nb_files_download st)
                     @ '' updated/new files downloaded - '' @ humanbytes e (tot_size st)
                     @ '' - '' @ humanduration t (now e (nclock st + 2)))"
  using save_written [OF assms, of "close_connection e st"]
  by (simp_all add: shutdown_def)

lemma sync_files_completes:
  assumes "for_each_file e param lastsync_date filelist st = Inr st2"
  shows "sync_files e param start_time lastsync_date filelist st
           = Inr (shutdown e param start_time st2)"
  using assms by (simp add: sync_files_def)

lemma for_each_file_append:
  "for_each_file e param l (xs @ ys) st =
     (case for_each_file e param l xs st of
        Inl a \<Rightarrow> Inl a
      | Inr st' \<Rightarrow> for_each_file e param l ys st')"
  by (induction xs arbitrary: st) (auto split: sum.splits)

subsection \<open>The concrete world, section by section\<close>

lemma scn_loop:
  assumes "files st = Map.empty"
  shows "\<exists>st2. for_each_file (scn_world refused clock) scn_param 0 [''a'', ''b''] st = Inr st2
              \<and> files st2 = [''t/b'' \<mapsto> ''new''] \<and> nclock st2 = nclock st
              \<and> nb_files_download st2 = nb_files_download st + 1
              \<and> nb_files_error st2 = nb_files_error st + 1
              \<and> tot_size st2 = tot_size st + 3"
  using assms
  by (simp add: scn_world_def scn_param_def scn_stat_def gr_param_init_def loop_body_def
        get_file_def backup_previous_version_def sftp_get_try_def to_download_def S_ISREG_def
        isfile_def Let_def)

lemma scn_param_simps [simp]:
  "last_exec_filename scn_param = ''last''" "sourcefolder scn_param = ''r/''"
  "targetfolder scn_param = ''t/''" "simulation scn_param = False"
  "last_exec_filename scn_param_sim = ''last''" "sourcefolder scn_param_sim = ''r/''"
  "targetfolder scn_param_sim = ''t/''" "simulation scn_param_sim = True"
  by (simp_all add: scn_param_sim_def scn_param_def gr_param_init_def)

lemma scn_world_simps [simp]:
  "denied (scn_world refused clock) = refused"
  "now (scn_world refused clock) = clock"
  "humanbytes (scn_world refused clock) b = str_of_int b @ ''.0 Byte''"
  by (simp_all add: scn_world_def)

lemma scn_loop_state_simps [simp]:
  "files (scn_loop_state fls) = fls" "nclock (scn_loop_state fls) = 1"
  "nb_files_download (scn_loop_state fls) = 0" "nb_files_error (scn_loop_state fls) = 0"
  "tot_size (scn_loop_state fls) = 0" "log (scn_loop_state fls) = []"
  by (simp_all add: scn_loop_state_def scn_state_def)

lemma scn_texts:
  "str_of_int (int_of_float 1060) = ''1060''"
  "str_of_int (int_of_float 1000) = ''1000''"
  "str_of_int 1 = ''1''"
  "str_of_int 3 = ''3''"
  "humanduration 1000 1180 = '' 3 min''"
  "humanduration 1000 4600 = '' 1 h''"
  "int_of_str ''abc'' = None"
  "int_of_str ''-5'' = Some (- 5)"
  by code_simp+

subsection \<open>A failed transfer with a backup in place\<close>

text \<open>
  C1. The claim: when the fetch fails and a local file stood at the destination, the backup
  is renamed back before the iteration returns. The lines of one iteration (362-413), run
  where the local file \<open>t/a\<close> holds \<open>old\<close> and the transfer of \<open>a\<close> fails after writing
  \<open>ne\<close>: the iteration ends with the uncaught \<open>AttributeError\<close> of line 402, the
  destination holds the partial content \<open>ne\<close> and the prior content is still at
  \<open>t/a.back\<close>. A run of the script in that world does not get there: it ends at line 294
  with \<open>NameError\<close> and \<open>t/a\<close> as it was.
\<close>

theorem C1_restore_not_reached:
  "ended_by (loop_body scn_env_partial scn_param 0 ''a'' (scn_state [''t/a'' \<mapsto> ''old'']))
     = Some (Uncaught AttributeError)
   \<and> files (final_state (loop_body scn_env_partial scn_param 0 ''a''
                           (scn_state [''t/a'' \<mapsto> ''old'']))) ''t/a'' = Some ''ne''
   \<and> files (final_state (loop_body scn_env_partial scn_param 0 ''a''
                           (scn_state [''t/a'' \<mapsto> ''old'']))) ''t/a.back'' = Some ''old''
   \<and> ended_by (grbackup scn_env_partial scn_param (scn_state [''t/a'' \<mapsto> ''old'']))
     = Some (Uncaught NameError)
   \<and> files (final_state (grbackup scn_env_partial scn_param
                           (scn_state [''t/a'' \<mapsto> ''old'']))) ''t/a'' = Some ''old''"
  by code_simp

text \<open>
  C3. The claim: a failed fetch is counted once, the loop goes on and the watermark is
  written at the end. The script on scenario D of the specification (\<open>t/a\<close> exists, the
  transfer of \<open>a\<close> fails, \<open>b\<close> follows): the run ends at line 294 with \<open>NameError\<close>;
  nothing is fetched and no state file is written. The lines from the loop on (361-437),
  run in that world: the error is counted, then line 402 raises \<open>AttributeError\<close>; \<open>b\<close>
  is not fetched and no state file is written.
\<close>

theorem C3_failed_fetch_ends_run:
  "ended_by (grbackup scn_env scn_param (scn_state [''t/a'' \<mapsto> ''old'']))
     = Some (Uncaught NameError)
   \<and> files (final_state (grbackup scn_env scn_param (scn_state [''t/a'' \<mapsto> ''old''])))
        ''last'' = None
   \<and> ended_by (sync_files scn_env scn_param 1000 0 [''a'', ''b'']
                  (scn_loop_state [''t/a'' \<mapsto> ''old'']))
     = Some (Uncaught AttributeError)
   \<and> nb_files_error (final_state (sync_files scn_env scn_param 1000 0 [''a'', ''b'']
                                     (scn_loop_state [''t/a'' \<mapsto> ''old'']))) = 1
   \<and> files (final_state (sync_files scn_env scn_param 1000 0 [''a'', ''b'']
                            (scn_loop_state [''t/a'' \<mapsto> ''old'']))) ''t/b'' = None
   \<and> files (final_state (sync_files scn_env scn_param 1000 0 [''a'', ''b'']
                            (scn_loop_state [''t/a'' \<mapsto> ''old'']))) ''last'' = None"
  by code_simp

text \<open>
  C10. The claim: a file already at the destination path with \<open>.back\<close> appended is deleted
  when the transfer succeeds and renamed onto the destination when it fails. The lines of
  one iteration (362-413), run where only \<open>t/a.back\<close> exists (it holds \<open>other\<close>) and the
  transfer of \<open>a\<close> fails: the iteration ends with the uncaught \<open>AttributeError\<close> of line
  402, \<open>t/a.back\<close> is where it was and nothing is at \<open>t/a\<close>. A run of the script in that
  world does not get there: it ends at line 294 with \<open>NameError\<close>.
\<close>

theorem C10_stray_backup_not_moved:
  "ended_by (loop_body scn_env scn_param 0 ''a'' (scn_state [''t/a.back'' \<mapsto> ''other'']))
     = Some (Uncaught AttributeError)
   \<and> files (final_state (loop_body scn_env scn_param 0 ''a''
                           (scn_state [''t/a.back'' \<mapsto> ''other'']))) ''t/a'' = None
   \<and> files (final_state (loop_body scn_env scn_param 0 ''a''
                           (scn_state [''t/a.back'' \<mapsto> ''other'']))) ''t/a.back''
     = Some ''other''
   \<and> ended_by (grbackup scn_env scn_param (scn_state [''t/a.back'' \<mapsto> ''other'']))
     = Some (Uncaught NameError)"
  by code_simp

subsection \<open>A failure of the rename to the backup path\<close>

lemma loop_body_backup_rename_fails:
  assumes "backup_rename_fails e param l f st"
  shows "ended_by (loop_body e param l f st) = Some SystemExit"
    and "files (final_state (loop_body e param l f st)) = files st"
  using assms
  by (auto simp: backup_rename_fails_def loop_body_def get_file_def backup_previous_version_def
        Let_def ended_by_def final_state_def split: option.splits sum.splits)

text \<open>
  C4. The lines from the loop on (361-437): if the rename of an existing local file to its
  backup path fails, they end at once. Their result is the result of that very iteration,
  which is an exit, whatever entries follow in the listing; the local files are the ones
  the iteration found, so no watermark has been written. (No run of the script gets to
  these lines: see \<open>grbackup_ends_at_banner\<close>.)
\<close>

theorem C4_backup_rename_failure_aborts:
  assumes "for_each_file e param lastsync_date pre st = Inr st1"
      and "backup_rename_fails e param lastsync_date filetoget st1"
  shows "sync_files e param start_time lastsync_date (pre @ filetoget # post) st
           = loop_body e param lastsync_date filetoget st1
         \<and> ended_by (sync_files e param start_time lastsync_date (pre @ filetoget # post) st)
           = Some SystemExit
         \<and> files (final_state
                    (sync_files e param start_time lastsync_date (pre @ filetoget # post) st))
           = files st1"
proof -
  have ex: "ended_by (loop_body e param lastsync_date filetoget st1) = Some SystemExit"
    using assms(2) by (rule loop_body_backup_rename_fails)
  then obtain x where x: "loop_body e param lastsync_date filetoget st1 = Inl x"
    by (auto simp: ended_by_def split: sum.splits)
  have "for_each_file e param lastsync_date (pre @ filetoget # post) st = Inl x"
    using assms(1) x by (simp add: for_each_file_append)
  then have "sync_files e param start_time lastsync_date (pre @ filetoget # post) st = Inl x"
    by (simp add: sync_files_def)
  with x ex loop_body_backup_rename_fails(2) [OF assms(2)] show ?thesis by simp
qed

theorem C4_backup_rename_failure_aborts_witness:
  "ended_by (sync_files scn_env_ro scn_param 1000 0 [''a'', ''b'']
               (scn_loop_state [''t/a'' \<mapsto> ''old''])) = Some SystemExit
   \<and> files (final_state (sync_files scn_env_ro scn_param 1000 0 [''a'', ''b'']
                            (scn_loop_state [''t/a'' \<mapsto> ''old''])))
       = [''t/a'' \<mapsto> ''old'']"
proof -
  let ?st = "scn_loop_state [''t/a'' \<mapsto> ''old'']"
  have l: "for_each_file scn_env_ro scn_param 0 [] ?st = Inr ?st" by simp
  have b: "backup_rename_fails scn_env_ro scn_param 0 ''a'' ?st"
    by (simp add: backup_rename_fails_def scn_env_ro_def scn_world_def scn_stat_def
          to_download_def S_ISREG_def isfile_def os_rename_def)
  have r: "sync_files scn_env_ro scn_param 1000 0 ([] @ ''a'' # [''b'']) ?st
             = loop_body scn_env_ro scn_param 0 ''a'' ?st
           \<and> ended_by (sync_files scn_env_ro scn_param 1000 0 ([] @ ''a'' # [''b'']) ?st)
               = Some SystemExit
           \<and> files (final_state (sync_files scn_env_ro scn_param 1000 0
                                    ([] @ ''a'' # [''b'']) ?st))
               = files ?st"
    by (rule C4_backup_rename_failure_aborts [OF l b])
  from r have r1: "ended_by (sync_files scn_env_ro scn_param 1000 0 ([] @ ''a'' # [''b'']) ?st)
               = Some SystemExit" by blast
  from r have r2: "files (final_state (sync_files scn_env_ro scn_param 1000 0
                                         ([] @ ''a'' # [''b'']) ?st)) = files ?st" by blast
  from r1 r2 show ?thesis by simp
qed

subsection \<open>The date of the last sync\<close>

text \<open>
  The section of lines 315-331 checks no sign: where the state file holds \<open>-5\<close>, the
  date of the last sync is \<open>-5\<close>.
\<close>

lemma get_date_of_last_sync_negative:
  "map_sum fst fst (get_date_of_last_sync scn_env scn_param (scn_state [''last'' \<mapsto> ''-5'']))
     = Inr (- 5)"
  by code_simp



subsection \<open>The end of the lines that follow the loop\<close>

text \<open>
  C8. The lines from the loop on (361-437): when the main loop has run through, whatever
  the outcome of each file, they end normally and the watermark is written: the state file
  holds the reading of the clock taken after the loop (the first reading after it), not a
  modification time of the listing. When the file cannot be written they still end
  normally and the log holds the error record. (No run of the script gets to these lines:
  see \<open>grbackup_ends_at_banner\<close>.)
\<close>

theorem C8_watermark_written_after_loop:
  assumes "for_each_file e param lastsync_date filelist st = Inr st2"
  shows "ended_by (sync_files e param start_time lastsync_date filelist st) = None
         \<and> (if OpenWrite (last_exec_filename param) \<in> denied e
                \<or> WriteData (last_exec_filename param) \<in> denied e
             then (ERROR, ''Unable to save date of last download'')
                    \<in> set (log (final_state
                                  (sync_files e param start_time lastsync_date filelist st)))
             else files (final_state (sync_files e param start_time lastsync_date filelist st))
                    = (files st2)(last_exec_filename param
                         \<mapsto> str_of_int (int_of_float (now e (nclock st2)))))"
proof -
  have g: "sync_files e param start_time lastsync_date filelist st
             = Inr (shutdown e param start_time st2)"
    using assms by (rule sync_files_completes)
  show ?thesis
    using save_refused [of param e "close_connection e st2"]
          save_written(1) [of param e "close_connection e st2"]
    by (auto simp: g ended_by_def final_state_def shutdown_def)
qed

theorem C8_watermark_written_after_loop_witness:
  "ended_by (sync_files scn_env scn_param 1000 0 [''a'', ''b''] (scn_loop_state Map.empty))
     = None
   \<and> files (final_state (sync_files scn_env scn_param 1000 0 [''a'', ''b'']
                            (scn_loop_state Map.empty)))
       = [''t/b'' \<mapsto> ''new'', ''last'' \<mapsto> ''1060'']
   \<and> ended_by (sync_files scn_env_nosave scn_param 1000 0 [''a'', ''b'']
                  (scn_loop_state Map.empty)) = None
   \<and> (ERROR, ''Unable to save date of last download'')
       \<in> set (log (final_state (sync_files scn_env_nosave scn_param 1000 0 [''a'', ''b'']
                                  (scn_loop_state Map.empty))))"
proof -
  let ?st = "scn_loop_state Map.empty"
  have f: "files ?st = Map.empty" by simp
  obtain st2 where
    l: "for_each_file scn_env scn_param 0 [''a'', ''b''] ?st = Inr st2" and
    f2: "files st2 = [''t/b'' \<mapsto> ''new'']" "nclock st2 = nclock ?st"
    using scn_loop [OF f, of "{}" scn_clock] by (auto simp: scn_env_def)
  obtain st2' where
    l': "for_each_file scn_env_nosave scn_param 0 [''a'', ''b''] ?st = Inr st2'"
    using scn_loop [OF f, of "{OpenWrite ''last''}" scn_clock]
    by (auto simp: scn_env_nosave_def)
  from C8_watermark_written_after_loop [OF l, of 1000]
       C8_watermark_written_after_loop [OF l', of 1000]
       f2 scn_texts
  show ?thesis
    by (simp add: scn_env_def scn_env_nosave_def scn_clock_def)
qed

text \<open>
  C9, as the code has it. The claim places the end timestamp of the duration before the
  watermark is saved. In the script \<open>humanduration(start_time, time.time())\<close> stands after
  the section that saves the watermark: when the state file is written from one reading of
  the clock, the duration of the closing record runs to the reading two calls later, so it
  includes the time spent writing the state file. (The theorem is about lines 361-437 as
  they are written; no run of the script gets to them.)
\<close>

theorem C9_duration_end_after_save:
  assumes "for_each_file e param lastsync_date filelist st = Inr st2"
      and "OpenWrite (last_exec_filename param) \<notin> denied e"
      and "WriteData (last_exec_filename param) \<notin> denied e"
  shows "files (final_state (sync_files e param start_time lastsync_date filelist st))
           (last_exec_filename param)
           = Some (str_of_int (int_of_float (now e (nclock st2))))
         \<and> last (log (final_state (sync_files e param start_time lastsync_date filelist st)))
           = (INFO, ''Finished: '' @ str_of_int (nb_files_download st2)
                     @ '' updated/new files downloaded - '' @ humanbytes e (tot_size st2)
                     @ '' - '' @ humanduration start_time (now e (nclock st2 + 2)))"
proof -
  have g: "sync_files e param start_time lastsync_date filelist st
             = Inr (shutdown e param start_time st2)"
    using assms(1) by (rule sync_files_completes)
  show ?thesis
    using shutdown_written [OF assms(2,3), of start_time st2]
    by (simp add: g final_state_def)
qed

theorem C9_duration_end_after_save_witness:
  "files (final_state (sync_files scn_env scn_param 1000 0 [''a'', ''b'']
                         (scn_loop_state Map.empty))) ''last'' = Some ''1060''
   \<and> last (log (final_state (sync_files scn_env scn_param 1000 0 [''a'', ''b'']
                               (scn_loop_state Map.empty))))
     = (INFO, ''Finished: 1 updated/new files downloaded - 3.0 Byte -  3 min'')"
proof -
  let ?st = "scn_loop_state Map.empty"
  have f: "files ?st = Map.empty" by simp
  obtain st2 where
    l: "for_each_file scn_env scn_param 0 [''a'', ''b''] ?st = Inr st2" and
    f2: "nclock st2 = nclock ?st" "nb_files_download st2 = nb_files_download ?st + 1"
        "tot_size st2 = tot_size ?st + 3"
    using scn_loop [OF f, of "{}" scn_clock] by (auto simp: scn_env_def)
  have w: "OpenWrite (last_exec_filename scn_param) \<notin> denied scn_env"
          "WriteData (last_exec_filename scn_param) \<notin> denied scn_env"
    by (simp_all add: scn_env_def)
  from C9_duration_end_after_save [OF l w, of 1000] f2 scn_texts show ?thesis
    by (simp add: scn_env_def scn_clock_def)
qed

text \<open>
  The claim of C9 as it is written fails. A run of the script takes no end timestamp and
  reports no duration at all: it ends at line 294 without a reading of the clock and
  without a record. And the lines from the loop on, run while the clock moves only when the
  state file is written (the watermark is 1000, the start was at 1000), report a duration
  of one hour.
\<close>

theorem C9_duration_includes_save:
  "nclock (final_state (grbackup scn_env_slow_save scn_param (scn_state Map.empty))) = 0
   \<and> log (final_state (grbackup scn_env_slow_save scn_param (scn_state Map.empty))) = []
   \<and> files (final_state (sync_files scn_env_slow_save scn_param 1000 0 [''a'', ''b'']
                            (scn_loop_state Map.empty))) ''last'' = Some ''1000''
   \<and> last (log (final_state (sync_files scn_env_slow_save scn_param 1000 0 [''a'', ''b'']
                               (scn_loop_state Map.empty))))
     = (INFO, ''Finished: 1 updated/new files downloaded - 3.0 Byte -  1 h'')"
proof -
  let ?clock = "\<lambda>n::nat. if n \<le> 1 then 1000 else 4600 :: real"
  let ?st = "scn_loop_state Map.empty"
  have f: "files ?st = Map.empty" by simp
  obtain st2 where
    l: "for_each_file scn_env_slow_save scn_param 0 [''a'', ''b''] ?st = Inr st2" and
    f2: "nclock st2 = nclock ?st" "nb_files_download st2 = nb_files_download ?st + 1"
        "tot_size st2 = tot_size ?st + 3"
    using scn_loop [OF f, of "{}" ?clock] by (auto simp: scn_env_slow_save_def)
  have g: "sync_files scn_env_slow_save scn_param 1000 0 [''a'', ''b''] ?st
             = Inr (shutdown scn_env_slow_save scn_param 1000 st2)"
    using l by (rule sync_files_completes)
  have w: "OpenWrite (last_exec_filename scn_param) \<notin> denied scn_env_slow_save"
          "WriteData (last_exec_filename scn_param) \<notin> denied scn_env_slow_save"
    by (simp_all add: scn_env_slow_save_def)
  have s: "final_state (grbackup scn_env_slow_save scn_param (scn_state Map.empty))
             = scn_state Map.empty"
    by (rule grbackup_shipped)
  have r: "final_state (sync_files scn_env_slow_save scn_param 1000 0 [''a'', ''b''] ?st)
             = shutdown scn_env_slow_save scn_param 1000 st2"
    by (simp add: g final_state_def)
  from shutdown_written [OF w, of 1000 st2] f2 scn_texts show ?thesis
    unfolding r s by (simp add: scn_env_slow_save_def scn_state_def)
qed

subsection \<open>Simulation mode\<close>



text \<open>
  The flag of the simulation mode guards the transfer block only (line 382): the lines after
  the loop write the state file whatever the flag says.
\<close>

lemma shutdown_in_simulation:
  assumes "simulation param"
      and "OpenWrite (last_exec_filename param) \<notin> denied e"
      and "WriteData (last_exec_filename param) \<notin> denied e"
  shows "files (shutdown e param start_time st) (last_exec_filename param)
           = Some (str_of_int (int_of_float (now e (nclock st))))"
  using shutdown_written(1) [OF assms(2,3), of start_time st] by simp



subsection \<open>The configuration\<close>

lemma case_update:
  "(case v0 of Some x \<Rightarrow> self\<lparr>name := x\<rparr> | None \<Rightarrow> self)
     = self\<lparr>name := pick v0 (name self)\<rparr>"
  "(case v1 of Some x \<Rightarrow> self\<lparr>label := x\<rparr> | None \<Rightarrow> self)
     = self\<lparr>label := pick v1 (label self)\<rparr>"
  "(case v2 of Some x \<Rightarrow> self\<lparr>last_exec_filename := x\<rparr> | None \<Rightarrow> self)
     = self\<lparr>last_exec_filename := pick v2 (last_exec_filename self)\<rparr>"
  "(case v3 of Some x \<Rightarrow> self\<lparr>log_filename := x\<rparr> | None \<Rightarrow> self)
     = self\<lparr>log_filename := pick v3 (log_filename self)\<rparr>"
  "(case v4 of Some x \<Rightarrow> self\<lparr>log_console := x\<rparr> | None \<Rightarrow> self)
     = self\<lparr>log_console := pick v4 (log_console self)\<rparr>"
  "(case v5 of Some x \<Rightarrow> self\<lparr>log_email := x\<rparr> | None \<Rightarrow> self)
     = self\<lparr>log_email := pick v5 (log_email self)\<rparr>"
  "(case v6 of Some x \<Rightarrow> self\<lparr>log_file := x\<rparr> | None \<Rightarrow> self)
     = self\<lparr>log_file := pick v6 (log_file self)\<rparr>"
  "(case v7 of Some x \<Rightarrow> self\<lparr>debug := x\<rparr> | None \<Rightarrow> self)
     = self\<lparr>debug := pick v7 (debug self)\<rparr>"
  "(case v8 of Some x \<Rightarrow> self\<lparr>host := x\<rparr> | None \<Rightarrow> self)
     = self\<lparr>host := pick v8 (host self)\<rparr>"
  "(case v9 of Some x \<Rightarrow> self\<lparr>port := x\<rparr> | None \<Rightarrow> self)
     = self\<lparr>port := pick v9 (port self)\<rparr>"
  "(case v10 of Some x \<Rightarrow> self\<lparr>password := x\<rparr> | None \<Rightarrow> self)
     = self\<lparr>password := pick v10 (password self)\<rparr>"
  "(case v11 of Some x \<Rightarrow> self\<lparr>username := x\<rparr> | None \<Rightarrow> self)
     = self\<lparr>username := pick v11 (username self)\<rparr>"
  "(case v12 of Some x \<Rightarrow> self\<lparr>sourcefolder := x\<rparr> | None \<Rightarrow> self)
     = self\<lparr>sourcefolder := pick v12 (sourcefolder self)\<rparr>"
  "(case v13 of Some x \<Rightarrow> self\<lparr>targetfolder := x\<rparr> | None \<Rightarrow> self)
     = self\<lparr>targetfolder := pick v13 (targetfolder self)\<rparr>"
  "(case v14 of Some x \<Rightarrow> self\<lparr>sync := x\<rparr> | None \<Rightarrow> self)
     = self\<lparr>sync := pick v14 (sync self)\<rparr>"
  "(case v15 of Some x \<Rightarrow> self\<lparr>simulation := x\<rparr> | None \<Rightarrow> self)
     = self\<lparr>simulation := pick v15 (simulation self)\<rparr>"
  "(case v16 of Some x \<Rightarrow> self\<lparr>ssl_port := x\<rparr> | None \<Rightarrow> self)
     = self\<lparr>ssl_port := pick v16 (ssl_port self)\<rparr>"
  "(case v17 of Some x \<Rightarrow> self\<lparr>smtp_server := x\<rparr> | None \<Rightarrow> self)
     = self\<lparr>smtp_server := pick v17 (smtp_server self)\<rparr>"
  "(case v18 of Some x \<Rightarrow> self\<lparr>smtp_login := x\<rparr> | None \<Rightarrow> self)
     = self\<lparr>smtp_login := pick v18 (smtp_login self)\<rparr>"
  "(case v19 of Some x \<Rightarrow> self\<lparr>smtp_password := x\<rparr> | None \<Rightarrow> self)
     = self\<lparr>smtp_password := pick v19 (smtp_password self)\<rparr>"
  "(case v20 of Some x \<Rightarrow> self\<lparr>source_email_address := x\<rparr> | None \<Rightarrow> self)
     = self\<lparr>source_email_address := pick v20 (source_email_address self)\<rparr>"
  "(case v21 of Some x \<Rightarrow> self\<lparr>dest_email_address := x\<rparr> | None \<Rightarrow> self)
     = self\<lparr>dest_email_address := pick v21 (dest_email_address self)\<rparr>"
  "(case v22 of Some x \<Rightarrow> self\<lparr>process_folders := x\<rparr> | None \<Rightarrow> self)
     = self\<lparr>process_folders := pick v22 (process_folders self)\<rparr>"
  by (simp_all add: pick_def split: option.splits)

lemma load_files_eq:
  "load_files self fls =
     self\<lparr>process_folders := pick (f_process_subfolders fls) (process_folders self)\<rparr>"
  unfolding load_files_def case_update by simp

lemma load_log_eq:
  "load_log self lg =
     self\<lparr>log_filename := pick (l_filename lg) (log_filename self),
          log_console := pick (l_console lg) (log_console self),
          log_email := pick (l_email lg) (log_email self),
          log_file := pick (l_file lg) (log_file self),
          debug := pick (l_debug lg) (debug self)\<rparr>"
  unfolding load_log_def Let_def case_update by simp

lemma load_source_eq:
  "load_source self src =
     self\<lparr>host := pick (s_host src) (host self),
          port := pick (s_port src) (port self),
          username := pick (s_username src) (username self),
          password := pick (s_password src) (password self),
          sourcefolder := pick (s_folder src) (sourcefolder self)\<rparr>"
  unfolding load_source_def Let_def case_update by simp

lemma load_target_eq:
  "load_target self tgt = self\<lparr>targetfolder := pick (t_folder tgt) (targetfolder self)\<rparr>"
  unfolding load_target_def case_update by simp

lemma load_execmode_eq:
  "load_execmode self ex =
     self\<lparr>sync := pick (x_sync ex) (sync self),
          simulation := pick (x_simulation ex) (simulation self)\<rparr>"
  unfolding load_execmode_def Let_def case_update by simp

lemma load_emailreport_eq:
  "load_emailreport self em =
     self\<lparr>ssl_port := pick (m_ssl_port em) (ssl_port self),
          smtp_server := pick (m_server em) (smtp_server self),
          smtp_login := pick (m_username em) (smtp_login self),
          smtp_password := pick (m_password em) (smtp_password self),
          source_email_address := pick (m_source_address em) (source_email_address self),
          dest_email_address := pick (m_dest_address em) (dest_email_address self)\<rparr>"
  unfolding load_emailreport_def Let_def case_update by simp

lemma case_files:
  "(case v of Some fls \<Rightarrow> load_files self fls | None \<Rightarrow> self)
     = self\<lparr>process_folders := pick_in v f_process_subfolders (process_folders self)\<rparr>"
  by (cases v) (simp_all add: load_files_eq pick_in_def)

lemma case_log:
  "(case v of Some lg \<Rightarrow> load_log self lg | None \<Rightarrow> self)
     = self\<lparr>log_filename := pick_in v l_filename (log_filename self),
            log_console := pick_in v l_console (log_console self),
            log_email := pick_in v l_email (log_email self),
            log_file := pick_in v l_file (log_file self),
            debug := pick_in v l_debug (debug self)\<rparr>"
  by (cases v) (simp_all add: load_log_eq pick_in_def)

lemma case_source:
  "(case v of Some src \<Rightarrow> load_source self src | None \<Rightarrow> self)
     = self\<lparr>host := pick_in v s_host (host self),
            port := pick_in v s_port (port self),
            username := pick_in v s_username (username self),
            password := pick_in v s_password (password self),
            sourcefolder := pick_in v s_folder (sourcefolder self)\<rparr>"
  by (cases v) (simp_all add: load_source_eq pick_in_def)

lemma case_target:
  "(case v of Some tgt \<Rightarrow> load_target self tgt | None \<Rightarrow> self)
     = self\<lparr>targetfolder := pick_in v t_folder (targetfolder self)\<rparr>"
  by (cases v) (simp_all add: load_target_eq pick_in_def)

lemma case_execmode:
  "(case v of Some ex \<Rightarrow> load_execmode self ex | None \<Rightarrow> self)
     = self\<lparr>sync := pick_in v x_sync (sync self),
            simulation := pick_in v x_simulation (simulation self)\<rparr>"
  by (cases v) (simp_all add: load_execmode_eq pick_in_def)

lemma case_emailreport:
  "(case v of Some em \<Rightarrow> load_emailreport self em | None \<Rightarrow> self)
     = self\<lparr>ssl_port := pick_in v m_ssl_port (ssl_port self),
            smtp_server := pick_in v m_server (smtp_server self),
            smtp_login := pick_in v m_username (smtp_login self),
            smtp_password := pick_in v m_password (smtp_password self),
            source_email_address := pick_in v m_source_address (source_email_address self),
            dest_email_address := pick_in v m_dest_address (dest_email_address self)\<rparr>"
  by (cases v) (simp_all add: load_emailreport_eq pick_in_def)

lemma load_eq_override: "load dflt frag = field_by_field_override dflt frag"
  by (simp add: load_def Let_def case_update case_files case_log
        case_source case_target case_execmode case_emailreport field_by_field_override_def)


lemma load_step_later:
  "0 < n \<Longrightarrow> load_step sel (n, dp, par) g =
     (Suc n, dp, if sel = name (load dp g) then Some (load dp g) else par)"
  by (simp add: load_step_def Let_def)

lemma foldl_load_step_shape:
  "0 < n \<Longrightarrow> \<exists>par'. foldl (load_step sel) (n, dp, par) gs = (n + length gs, dp, par')"
proof (induction gs arbitrary: n par)
  case Nil
  then show ?case by simp
next
  case (Cons g gs)
  from Cons.IH [of "Suc n"] Cons.prems show ?case
    by (simp add: load_step_later)
qed

lemma foldl_load_step_no_match:
  "0 < n \<Longrightarrow> \<forall>g\<in>set gs. name (load dp g) \<noteq> sel \<Longrightarrow>
     foldl (load_step sel) (n, dp, par) gs = (n + length gs, dp, par)"
proof (induction gs arbitrary: n)
  case Nil
  then show ?case by simp
next
  case (Cons g gs)
  from Cons.prems have "load_step sel (n, dp, par) g = (Suc n, dp, par)"
    by (auto simp: load_step_later)
  with Cons.IH [of "Suc n"] Cons.prems show ?case by simp
qed

lemma configuration_load_first:
  "configuration_load cwd sel (d # rest) =
     (case foldl (load_step sel)
             (1, load (gr_param_init cwd ''default'') d,
              Some (load (gr_param_init cwd ''default'') d)) rest of
        (load_count, defaultparam, param) \<Rightarrow>
          if load_count = 1 then Some defaultparam else param)"
  by (simp add: configuration_load_def load_step_def Let_def)

lemma configuration_load_no_match:
  assumes "\<forall>g\<in>set rest. name (load (load (gr_param_init cwd ''default'') d) g) \<noteq> sel"
  shows "configuration_load cwd sel (d # rest) = Some (load (gr_param_init cwd ''default'') d)"
  using foldl_load_step_no_match [OF _ assms, of 1]
  by (simp add: configuration_load_first)

lemma configuration_load_match:
  assumes "name (load (load (gr_param_init cwd ''default'') d) f) = sel"
      and "\<forall>g\<in>set post. name (load (load (gr_param_init cwd ''default'') d) g) \<noteq> sel"
  shows "configuration_load cwd sel (d # pre @ f # post)
           = Some (load (load (gr_param_init cwd ''default'') d) f)"
proof -
  let ?dp = "load (gr_param_init cwd ''default'') d"
  obtain par where pre:
    "foldl (load_step sel) (Suc 0, ?dp, Some ?dp) pre = (Suc 0 + length pre, ?dp, par)"
    using foldl_load_step_shape [of "Suc 0" sel ?dp "Some ?dp" pre] by auto
  have step: "load_step sel (Suc 0 + length pre, ?dp, par) f
                = (Suc (Suc 0 + length pre), ?dp, Some (load ?dp f))"
    using assms(1) by (simp add: load_step_later)
  have post: "foldl (load_step sel) (Suc (Suc 0 + length pre), ?dp, Some (load ?dp f)) post
                = (Suc (Suc 0 + length pre) + length post, ?dp, Some (load ?dp f))"
    using assms(2) by (intro foldl_load_step_no_match) auto
  have "foldl (load_step sel) (Suc 0, ?dp, Some ?dp) (pre @ f # post)
          = (Suc (Suc 0 + length pre) + length post, ?dp, Some (load ?dp f))"
    by (simp only: foldl_append foldl_Cons pre step post)
  then show ?thesis
    by (simp add: configuration_load_first)
qed


text \<open>
  C7. The first document, loaded over the built-in defaults, is the default profile. A
  later document's name is its \<open>name\<close> key or, when it has none, the name of the default
  profile, as for every other field. The resolved profile is the default profile overridden
  field by field with the keys present in the (last) later document whose name equals the
  selected name; when no later document has that name it is the default profile.
\<close>

theorem C7_config_resolution:
  fixes cwd selected_param d
  defines "dflt \<equiv> field_by_field_override (gr_param_init cwd ''default'') d"
  shows "(pick (d_name frag) (name dflt) = selected_param
          \<and> (\<forall>g\<in>set post. pick (d_name g) (name dflt) \<noteq> selected_param)
          \<longrightarrow> configuration_load cwd selected_param (d # pre @ frag # post)
                = Some (field_by_field_override dflt frag))
       \<and> ((\<forall>g\<in>set rest. pick (d_name g) (name dflt) \<noteq> selected_param)
          \<longrightarrow> configuration_load cwd selected_param (d # rest) = Some dflt)"
proof -
  have nm: "\<And>g. name (load dflt g) = pick (d_name g) (name dflt)"
    by (simp add: load_eq_override field_by_field_override_def)
  have d: "load (gr_param_init cwd ''default'') d = dflt"
    by (simp add: dflt_def load_eq_override)
  show ?thesis
    using configuration_load_match [of cwd d frag selected_param post pre]
          configuration_load_no_match [of rest cwd d selected_param]
    by (simp add: d nm load_eq_override [symmetric])
qed

theorem C7_config_resolution_witness:
  "map_option host (configuration_load ''/w'' ''srv1'' [doc_default, doc_srv1, doc_srv2])
     = Some ''h1''
   \<and> map_option targetfolder (configuration_load ''/w'' ''srv1'' [doc_default, doc_srv1, doc_srv2])
     = Some ''t/''
   \<and> map_option port (configuration_load ''/w'' ''srv1'' [doc_default, doc_srv1, doc_srv2])
     = Some 22
   \<and> map_option host (configuration_load ''/w'' ''nosuch'' [doc_default, doc_srv1, doc_srv2])
     = Some ''h0''"
proof -
  have n: "name (field_by_field_override (gr_param_init ''/w'' ''default'') doc_default)
             = ''default''"
    by (simp add: field_by_field_override_def doc_default_def empty_doc_def pick_def
          gr_param_init_def)
  have a: "configuration_load ''/w'' ''srv1'' (doc_default # [] @ doc_srv1 # [doc_srv2])
             = Some (field_by_field_override
                       (field_by_field_override (gr_param_init ''/w'' ''default'') doc_default)
                       doc_srv1)"
    using C7_config_resolution [where cwd = "''/w''" and d = doc_default and frag = doc_srv1
        and selected_param = "''srv1''" and pre = "[]" and post = "[doc_srv2]"]
    by (simp add: n doc_srv1_def doc_srv2_def empty_doc_def pick_def)
  have b: "configuration_load ''/w'' ''nosuch'' (doc_default # [doc_srv1, doc_srv2])
             = Some (field_by_field_override (gr_param_init ''/w'' ''default'') doc_default)"
    using C7_config_resolution [where cwd = "''/w''" and d = doc_default
        and selected_param = "''nosuch''" and rest = "[doc_srv1, doc_srv2]"]
    by (simp add: n doc_srv1_def doc_srv2_def empty_doc_def pick_def)
  from a b show ?thesis
    by (simp add: field_by_field_override_def doc_default_def doc_srv1_def empty_doc_def
          source_host_def pick_def pick_in_def gr_param_init_def)
qed

end
